theory Spec2Isabelle
  imports Main
begin

section \<open>The webhook routes of the payment service\<close>

text \<open>
  The theory embeds \<^verbatim>\<open>routes/webhooks.js\<close> (the router with
  \<^verbatim>\<open>POST /stripe\<close> and \<^verbatim>\<open>POST /paypal\<close> and their seventeen handlers) and
  \<^verbatim>\<open>stripeService.verifyWebhookSignature\<close>. Everything the code does beyond returning
  a response is explicit: the log lines it writes, the HTTP calls it issues to the
  authentication service, and the exceptions it throws and catches.
\<close>

subsection \<open>JavaScript values\<close>

text \<open>
  A parsed JSON value. Numbers and arrays are left out: the fields the handlers read
  (\<^verbatim>\<open>type\<close>, \<^verbatim>\<open>event_type\<close>, \<^verbatim>\<open>id\<close>, \<^verbatim>\<open>metadata.userId\<close>,
  \<^verbatim>\<open>metadata.planId\<close>) are strings in both providers' schemas. An object is its
  list of fields, looked up from the front.
\<close>

datatype jsval =
    JUndefined
  | JNull
  | JBool bool
  | JStr string
  | JObj "(string \<times> jsval) list"

datatype js_error = TypeError | Error string

text \<open>\<^verbatim>\<open>if (v)\<close>, \<^verbatim>\<open>!v\<close>, \<^verbatim>\<open>a && b\<close>: the truthiness of a value.\<close>

fun truthy :: "jsval \<Rightarrow> bool" where
  "truthy JUndefined = False"
| "truthy JNull = False"
| "truthy (JBool b) = b"
| "truthy (JStr s) = (s \<noteq> [])"
| "truthy (JObj kvs) = True"

text \<open>
  \<^verbatim>\<open>v.k\<close>: reading a property of \<^verbatim>\<open>undefined\<close> or \<^verbatim>\<open>null\<close> throws a
  TypeError; a missing field, and any field of a string or a boolean (none of the names
  read here is a built-in property), is \<^verbatim>\<open>undefined\<close>.
\<close>

fun getprop :: "jsval \<Rightarrow> string \<Rightarrow> js_error + jsval" where
  "getprop JUndefined k = Inl TypeError"
| "getprop JNull k = Inl TypeError"
| "getprop (JObj kvs) k = Inr (case map_of kvs k of None \<Rightarrow> JUndefined | Some v \<Rightarrow> v)"
| "getprop (JBool b) k = Inr JUndefined"
| "getprop (JStr s) k = Inr JUndefined"

text \<open>
  The conversion a template literal applies to \<^verbatim>\<open>${v}\<close>. A parsed JSON object has
  no callable field, so one with a field \<^verbatim>\<open>toString\<close> of its own cannot be converted
  (TypeError); any other object prints as \<^verbatim>\<open>[object Object]\<close>.
\<close>

fun to_str :: "jsval \<Rightarrow> js_error + string" where
  "to_str JUndefined = Inr ''undefined''"
| "to_str JNull = Inr ''null''"
| "to_str (JBool b) = Inr (if b then ''true'' else ''false'')"
| "to_str (JStr s) = Inr s"
| "to_str (JObj kvs) =
     (if ''toString'' \<in> set (map fst kvs) then Inl TypeError else Inr ''[object Object]'')"

text \<open>\<^verbatim>\<open>${obj.id}\<close>: read the field, then convert it.\<close>

definition id_text :: "jsval \<Rightarrow> js_error + string" where
  "id_text obj = (case getprop obj ''id'' of Inl e \<Rightarrow> Inl e | Inr v \<Rightarrow> to_str v)"

text \<open>\<^verbatim>\<open>obj.metadata && obj.metadata.k\<close>\<close>

definition metadata_field :: "jsval \<Rightarrow> string \<Rightarrow> js_error + jsval" where
  "metadata_field obj k =
     (case getprop obj ''metadata'' of
        Inl e \<Rightarrow> Inl e
      | Inr m \<Rightarrow> if truthy m then getprop m k else Inr m)"

text \<open>\<^verbatim>\<open>event.data.object\<close>\<close>

definition event_object :: "jsval \<Rightarrow> js_error + jsval" where
  "event_object event =
     (case getprop event ''data'' of Inl e \<Rightarrow> Inl e | Inr d \<Rightarrow> getprop d ''object'')"

text \<open>
  \<^verbatim>\<open>${response.status}\<close>: a number inside a template literal prints in decimal.
\<close>

definition digit :: "nat \<Rightarrow> char" where
  "digit d = ''0123456789'' ! d"

fun string_of_nat :: "nat \<Rightarrow> string" where
  "string_of_nat n =
     (if 9 < n then string_of_nat (n div 10) @ [digit (n mod 10)] else [digit n])"

subsection \<open>The world the routes act on\<close>

datatype level = Info | Warn | Err

type_synonym log_entry = "level \<times> string"

text \<open>
  The arguments of \<^verbatim>\<open>fetch(url, {method, headers, body: JSON.stringify(o)})\<close>;
  \<open>req_body\<close> is the object \<^verbatim>\<open>o\<close> before it is serialised.
\<close>

record http_request =
  req_method :: string
  req_url :: string
  req_headers :: "(string \<times> string) list"
  req_body :: jsval

text \<open>What \<^verbatim>\<open>fetch\<close> resolves to; \<open>resp_text = None\<close> when reading the body rejects.\<close>

record http_response =
  resp_status :: nat
  resp_statusText :: string
  resp_text :: "string option"

datatype fetch_result = FetchRejected | Responded http_response

text \<open>\<^verbatim>\<open>response.ok\<close>\<close>

definition resp_ok :: "http_response \<Rightarrow> bool" where
  "resp_ok r = (200 \<le> resp_status r \<and> resp_status r \<le> 299)"

text \<open>
  The entities of the README's data model (dates and metadata left out), each stored
  under its \<^verbatim>\<open>_id\<close>.
\<close>

record payment =
  payment_userId :: string
  payment_amount :: int
  payment_currency :: string
  payment_status :: string
  payment_provider :: string
  providerPaymentId :: string

record subscription =
  subscription_userId :: string
  subscription_planId :: string
  subscription_status :: string
  subscription_provider :: string
  providerSubscriptionId :: string
  cancelAtPeriodEnd :: bool

record customer =
  customer_userId :: string
  customer_provider :: string
  providerCustomerId :: string
  defaultPaymentMethod :: string

text \<open>
  The state outside the request: the log, the calls to \<^verbatim>\<open>fetch\<close> made so far
  (all of them to the authentication service), and the stored entities.
\<close>

record world =
  logs :: "log_entry list"
  outbound :: "http_request list"
  payments :: "string \<rightharpoonup> payment"
  subscriptions :: "string \<rightharpoonup> subscription"
  customers :: "string \<rightharpoonup> customer"

text \<open>
  What the routes take from outside the repository: Stripe's
  \<^verbatim>\<open>webhooks.constructEvent(payload, signature, STRIPE_WEBHOOK_SECRET)\<close>, which returns
  the event or throws with a message; \<^verbatim>\<open>process.env.AUTH_SERVICE_URL\<close>; whether
  \<^verbatim>\<open>import('node-fetch')\<close> resolves; and the network's answer to a call.
\<close>

record env =
  constructEvent :: "string \<Rightarrow> string \<Rightarrow> string + jsval"
  auth_service_url :: "string option"
  import_fetch :: bool
  fetch :: "http_request \<Rightarrow> fetch_result"

text \<open>
  \<^verbatim>\<open>logger.info(msg, ...)\<close>, \<^verbatim>\<open>logger.warn\<close>, \<^verbatim>\<open>logger.error\<close>: the level and
  the message; further arguments are metadata and are not recorded.
\<close>

definition logger :: "level \<Rightarrow> string \<Rightarrow> world \<Rightarrow> world" where
  "logger l msg w = w\<lparr>logs := logs w @ [(l, msg)]\<rparr>"

text \<open>The stored entities of a world.\<close>

definition entities ::
  "world \<Rightarrow> (string \<rightharpoonup> payment) \<times> (string \<rightharpoonup> subscription) \<times> (string \<rightharpoonup> customer)" where
  "entities w = (payments w, subscriptions w, customers w)"

subsection \<open>Requests and responses\<close>

text \<open>\<^verbatim>\<open>req.headers['stripe-signature']\<close> and \<^verbatim>\<open>req.body\<close> of the Stripe route.\<close>

record stripe_request =
  stripe_signature :: "string option"
  raw_body :: string

text \<open>
  A request to the PayPal route: the parsed body, and PayPal's transmission headers,
  which the route never reads.
\<close>

record paypal_request =
  paypal_transmission_id :: "string option"
  paypal_transmission_sig :: "string option"
  paypal_body :: jsval

record response =
  res_status :: nat
  res_json :: jsval

text \<open>\<^verbatim>\<open>res.json({ received: true })\<close>\<close>

definition received :: response where
  "received = \<lparr>res_status = 200, res_json = JObj [(''received'', JBool True)]\<rparr>"

text \<open>\<^verbatim>\<open>res.status(c).json({ error: msg })\<close>\<close>

definition error_response :: "nat \<Rightarrow> string \<Rightarrow> response" where
  "error_response c msg = \<lparr>res_status = c, res_json = JObj [(''error'', JStr msg)]\<rparr>"

subsection \<open>stripeService.verifyWebhookSignature\<close>

definition verifyWebhookSignature ::
  "env \<Rightarrow> string \<Rightarrow> string \<Rightarrow> world \<Rightarrow> (js_error + jsval) \<times> world" where
  "verifyWebhookSignature e payload signature w =
     (case constructEvent e payload signature of
        Inr event \<Rightarrow> (Inr event, w)
      | Inl msg \<Rightarrow>
          (Inl (Error (''Webhook signature verification failed: '' @ msg)),
           logger Err ''Webhook signature verification failed:'' w))"

subsection \<open>The handlers that only log\<close>

text \<open>
  Fourteen handlers have the same body:
  \<^verbatim>\<open>try { logger.info(`<prefix>${obj.id}`); /* TODO ... */ } catch (error) { logger.error('<message>', error); }\<close>
\<close>

definition log_id_handler :: "string \<Rightarrow> string \<Rightarrow> jsval \<Rightarrow> world \<Rightarrow> world" where
  "log_id_handler prefix message obj w =
     (case id_text obj of
        Inr s \<Rightarrow> logger Info (prefix @ s) w
      | Inl e \<Rightarrow> logger Err message w)"

definition handlePaymentIntentSucceeded :: "jsval \<Rightarrow> world \<Rightarrow> world" where
  "handlePaymentIntentSucceeded =
     log_id_handler ''Payment intent succeeded: '' ''Error handling payment intent succeeded:''"

definition handlePaymentIntentFailed :: "jsval \<Rightarrow> world \<Rightarrow> world" where
  "handlePaymentIntentFailed =
     log_id_handler ''Payment intent failed: '' ''Error handling payment intent failed:''"

definition handleInvoicePaymentSucceeded :: "jsval \<Rightarrow> world \<Rightarrow> world" where
  "handleInvoicePaymentSucceeded =
     log_id_handler ''Invoice payment succeeded: '' ''Error handling invoice payment succeeded:''"

definition handleInvoicePaymentFailed :: "jsval \<Rightarrow> world \<Rightarrow> world" where
  "handleInvoicePaymentFailed =
     log_id_handler ''Invoice payment failed: '' ''Error handling invoice payment failed:''"

definition handleSubscriptionDeleted :: "jsval \<Rightarrow> world \<Rightarrow> world" where
  "handleSubscriptionDeleted =
     log_id_handler ''Subscription deleted: '' ''Error handling subscription deleted:''"

definition handleSubscriptionTrialWillEnd :: "jsval \<Rightarrow> world \<Rightarrow> world" where
  "handleSubscriptionTrialWillEnd =
     log_id_handler ''Subscription trial will end: ''
       ''Error handling subscription trial will end:''"

definition handlePayPalPaymentCompleted :: "jsval \<Rightarrow> world \<Rightarrow> world" where
  "handlePayPalPaymentCompleted =
     log_id_handler ''PayPal payment completed: '' ''Error handling PayPal payment completed:''"

definition handlePayPalPaymentDenied :: "jsval \<Rightarrow> world \<Rightarrow> world" where
  "handlePayPalPaymentDenied =
     log_id_handler ''PayPal payment denied: '' ''Error handling PayPal payment denied:''"

definition handlePayPalSubscriptionCreated :: "jsval \<Rightarrow> world \<Rightarrow> world" where
  "handlePayPalSubscriptionCreated =
     log_id_handler ''PayPal subscription created: ''
       ''Error handling PayPal subscription created:''"

definition handlePayPalSubscriptionActivated :: "jsval \<Rightarrow> world \<Rightarrow> world" where
  "handlePayPalSubscriptionActivated =
     log_id_handler ''PayPal subscription activated: ''
       ''Error handling PayPal subscription activated:''"

definition handlePayPalSubscriptionCancelled :: "jsval \<Rightarrow> world \<Rightarrow> world" where
  "handlePayPalSubscriptionCancelled =
     log_id_handler ''PayPal subscription cancelled: ''
       ''Error handling PayPal subscription cancelled:''"

definition handlePayPalSubscriptionExpired :: "jsval \<Rightarrow> world \<Rightarrow> world" where
  "handlePayPalSubscriptionExpired =
     log_id_handler ''PayPal subscription expired: ''
       ''Error handling PayPal subscription expired:''"

definition handlePayPalSubscriptionPaymentCompleted :: "jsval \<Rightarrow> world \<Rightarrow> world" where
  "handlePayPalSubscriptionPaymentCompleted =
     log_id_handler ''PayPal subscription payment completed: ''
       ''Error handling PayPal subscription payment completed:''"

definition handlePayPalSubscriptionPaymentFailed :: "jsval \<Rightarrow> world \<Rightarrow> world" where
  "handlePayPalSubscriptionPaymentFailed =
     log_id_handler ''PayPal subscription payment failed: ''
       ''Error handling PayPal subscription payment failed:''"

subsection \<open>The handlers that update the user's plan\<close>

text \<open>
  The inner \<^verbatim>\<open>try { ... } catch (err) { logger.error('PATCH request failed:', err); }\<close>
  block, the same text in \<^verbatim>\<open>handleCheckoutSessionCompleted\<close>,
  \<^verbatim>\<open>handleSubscriptionCreated\<close> and \<^verbatim>\<open>handleSubscriptionUpdated\<close>: one call
  \<^verbatim>\<open>fetch(`${authServiceUrl}/auth/users/${userId}/plan`, { method: 'PATCH', ... })\<close>,
  its outcome logged.
\<close>

definition patch_failed :: "world \<Rightarrow> world" where
  "patch_failed w = logger Err ''PATCH request failed:'' w"

definition plan_request :: "env \<Rightarrow> string \<Rightarrow> jsval \<Rightarrow> http_request" where
  "plan_request e uid planId =
     \<lparr>req_method = ''PATCH'',
      req_url = (case auth_service_url e of None \<Rightarrow> ''undefined'' | Some u \<Rightarrow> u)
                  @ ''/auth/users/'' @ uid @ ''/plan'',
      req_headers = [(''Content-Type'', ''application/json'')],
      req_body = JObj [(''planId'', planId)]\<rparr>"

definition update_user_plan :: "env \<Rightarrow> jsval \<Rightarrow> jsval \<Rightarrow> world \<Rightarrow> world" where
  "update_user_plan e userId planId w =
     (if \<not> import_fetch e then patch_failed w
      else (case to_str userId of
        Inl err \<Rightarrow> patch_failed w
      | Inr uid \<Rightarrow>
          (let rq = plan_request e uid planId;
               w1 = w\<lparr>outbound := outbound w @ [rq]\<rparr>
           in (case fetch e rq of
                 FetchRejected \<Rightarrow> patch_failed w1
               | Responded r \<Rightarrow>
                   (let w2 = logger Info ''PATCH response status:'' w1
                    in (case resp_text r of
                          None \<Rightarrow> patch_failed w2
                        | Some responseBody \<Rightarrow>
                            (let w3 = logger Info ''PATCH response body:'' w2
                             in if \<not> resp_ok r
                                then logger Err
                                       (''Failed to update user plan in auth service: ''
                                          @ string_of_nat (resp_status r) @ '' ''
                                          @ resp_statusText r) w3
                                else (case to_str planId of
                                        Inl err \<Rightarrow> patch_failed w3
                                      | Inr pid \<Rightarrow>
                                          logger Info
                                            (''User '' @ uid @ '' plan updated to '' @ pid
                                               @ '' in auth service.'') w3))))))))"

definition handleCheckoutSessionCompleted :: "env \<Rightarrow> jsval \<Rightarrow> world \<Rightarrow> world" where
  "handleCheckoutSessionCompleted e session w =
     (let caught = logger Err ''Error handling checkout session completed:''
      in (case id_text session of
        Inl err \<Rightarrow> caught w
      | Inr sid \<Rightarrow>
          (let w1 = logger Info (''Checkout session completed: '' @ sid) w
           in (case metadata_field session ''userId'' of
             Inl err \<Rightarrow> caught w1
           | Inr userId \<Rightarrow>
               (case metadata_field session ''planId'' of
                  Inl err \<Rightarrow> caught w1
                | Inr planId \<Rightarrow>
                    (case to_str userId of
                       Inl err \<Rightarrow> caught w1
                     | Inr us \<Rightarrow>
                         (case to_str planId of
                            Inl err \<Rightarrow> caught w1
                          | Inr ps \<Rightarrow>
                              (let w2 = logger Info
                                          (''Session metadata - userId: '' @ us
                                             @ '', planId: '' @ ps) w1
                               in if truthy userId \<and> truthy planId
                                  then update_user_plan e userId planId w2
                                  else logger Warn
                                         ''userId or planId missing in session metadata.''
                                         w2))))))))"

text \<open>
  \<^verbatim>\<open>handleSubscriptionCreated\<close> and \<^verbatim>\<open>handleSubscriptionUpdated\<close> differ in the
  message of their outer \<^verbatim>\<open>catch\<close> only.
\<close>

definition subscription_plan_handler :: "string \<Rightarrow> env \<Rightarrow> jsval \<Rightarrow> world \<Rightarrow> world" where
  "subscription_plan_handler message e subscription w =
     (let w1 = logger Info ''Stripe webhook event:'' w
      in (case metadata_field subscription ''userId'' of
        Inl err \<Rightarrow> logger Err message w1
      | Inr userId \<Rightarrow>
          (case metadata_field subscription ''planId'' of
             Inl err \<Rightarrow> logger Err message w1
           | Inr planId \<Rightarrow>
               (let w2 = logger Info ''userId:'' w1
                in if truthy userId \<and> truthy planId
                   then update_user_plan e userId planId w2
                   else logger Warn
                          ''userId or planId missing in subscription metadata.'' w2))))"

definition handleSubscriptionCreated :: "env \<Rightarrow> jsval \<Rightarrow> world \<Rightarrow> world" where
  "handleSubscriptionCreated = subscription_plan_handler ''Error handling subscription created:''"

definition handleSubscriptionUpdated :: "env \<Rightarrow> jsval \<Rightarrow> world \<Rightarrow> world" where
  "handleSubscriptionUpdated = subscription_plan_handler ''Error handling subscription updated:''"

subsection \<open>POST /stripe\<close>

text \<open>
  \<^verbatim>\<open>await handler(event.data.object)\<close>: reading \<^verbatim>\<open>event.data.object\<close> may throw,
  in the route and outside every handler; the handler itself never throws.
\<close>

definition with_object ::
  "jsval \<Rightarrow> (jsval \<Rightarrow> world \<Rightarrow> world) \<Rightarrow> world \<Rightarrow> js_error option \<times> world" where
  "with_object event handler w =
     (case event_object event of
        Inl err \<Rightarrow> (Some err, w)
      | Inr obj \<Rightarrow> (None, handler obj w))"

text \<open>
  From \<^verbatim>\<open>logger.info(`Processing Stripe webhook: ${event.type}`)\<close> to the end of the
  \<^verbatim>\<open>switch\<close>; \<open>Some err\<close> is an exception that reaches the route's \<^verbatim>\<open>catch\<close>.
\<close>

definition stripe_dispatch :: "env \<Rightarrow> jsval \<Rightarrow> world \<Rightarrow> js_error option \<times> world" where
  "stripe_dispatch e event w =
     (case getprop event ''type'' of
        Inl err \<Rightarrow> (Some err, w)
      | Inr t \<Rightarrow>
          (case to_str t of
             Inl err \<Rightarrow> (Some err, w)
           | Inr ts \<Rightarrow>
               let w1 = logger Info (''Processing Stripe webhook: '' @ ts) w
               in if t = JStr ''payment_intent.succeeded''
                    then with_object event handlePaymentIntentSucceeded w1
                  else if t = JStr ''payment_intent.payment_failed''
                    then with_object event handlePaymentIntentFailed w1
                  else if t = JStr ''invoice.payment_succeeded''
                    then with_object event handleInvoicePaymentSucceeded w1
                  else if t = JStr ''invoice.payment_failed''
                    then with_object event handleInvoicePaymentFailed w1
                  else if t = JStr ''checkout.session.completed''
                    then with_object event (handleCheckoutSessionCompleted e) w1
                  else if t = JStr ''customer.subscription.created''
                    then with_object event (handleSubscriptionCreated e) w1
                  else if t = JStr ''customer.subscription.updated''
                    then with_object event (handleSubscriptionUpdated e) w1
                  else if t = JStr ''customer.subscription.deleted''
                    then with_object event handleSubscriptionDeleted w1
                  else if t = JStr ''customer.subscription.trial_will_end''
                    then with_object event handleSubscriptionTrialWillEnd w1
                  else (None, logger Info (''Unhandled Stripe event type: '' @ ts) w1)))"

definition stripe_webhook :: "env \<Rightarrow> stripe_request \<Rightarrow> world \<Rightarrow> response \<times> world" where
  "stripe_webhook e req w =
     (case stripe_signature req of
        None \<Rightarrow>
          (error_response 400 ''No signature found'',
           logger Err ''No Stripe signature found in webhook'' w)
      | Some signature \<Rightarrow>
          if signature = []
          then (error_response 400 ''No signature found'',
                logger Err ''No Stripe signature found in webhook'' w)
          else (case verifyWebhookSignature e (raw_body req) signature w of
                  (Inl err, w1) \<Rightarrow>
                    (error_response 400 ''Invalid signature'',
                     logger Err ''Webhook signature verification failed:'' w1)
                | (Inr event, w1) \<Rightarrow>
                    (case stripe_dispatch e event w1 of
                       (None, w2) \<Rightarrow> (received, w2)
                     | (Some err, w2) \<Rightarrow>
                         (error_response 500 ''Webhook processing failed'',
                          logger Err ''Error processing Stripe webhook:'' w2))))"

subsection \<open>POST /paypal\<close>

text \<open>
  From \<^verbatim>\<open>const { event_type, resource_type, resource } = req.body\<close> to the end of the
  \<^verbatim>\<open>switch\<close>. Destructuring \<^verbatim>\<open>undefined\<close> or \<^verbatim>\<open>null\<close> throws; once
  \<^verbatim>\<open>event_type\<close> has been read, the other two reads cannot.
\<close>

definition paypal_dispatch :: "jsval \<Rightarrow> world \<Rightarrow> js_error option \<times> world" where
  "paypal_dispatch body w =
     (case getprop body ''event_type'' of
        Inl err \<Rightarrow> (Some err, w)
      | Inr event_type \<Rightarrow>
          (case getprop body ''resource'' of
             Inl err \<Rightarrow> (Some err, w)
           | Inr resource \<Rightarrow>
               (case to_str event_type of
                  Inl err \<Rightarrow> (Some err, w)
                | Inr ts \<Rightarrow>
                    let w1 = logger Info (''Processing PayPal webhook: '' @ ts) w
                    in if event_type = JStr ''PAYMENT.CAPTURE.COMPLETED''
                         then (None, handlePayPalPaymentCompleted resource w1)
                       else if event_type = JStr ''PAYMENT.CAPTURE.DENIED''
                         then (None, handlePayPalPaymentDenied resource w1)
                       else if event_type = JStr ''BILLING.SUBSCRIPTION.CREATED''
                         then (None, handlePayPalSubscriptionCreated resource w1)
                       else if event_type = JStr ''BILLING.SUBSCRIPTION.ACTIVATED''
                         then (None, handlePayPalSubscriptionActivated resource w1)
                       else if event_type = JStr ''BILLING.SUBSCRIPTION.CANCELLED''
                         then (None, handlePayPalSubscriptionCancelled resource w1)
                       else if event_type = JStr ''BILLING.SUBSCRIPTION.EXPIRED''
                         then (None, handlePayPalSubscriptionExpired resource w1)
                       else if event_type = JStr ''BILLING.SUBSCRIPTION.PAYMENT.COMPLETED''
                         then (None, handlePayPalSubscriptionPaymentCompleted resource w1)
                       else if event_type = JStr ''BILLING.SUBSCRIPTION.PAYMENT.FAILED''
                         then (None, handlePayPalSubscriptionPaymentFailed resource w1)
                       else (None, logger Info (''Unhandled PayPal event type: '' @ ts) w1))))"

definition paypal_webhook :: "paypal_request \<Rightarrow> world \<Rightarrow> response \<times> world" where
  "paypal_webhook req w =
     (case paypal_dispatch (paypal_body req) w of
        (None, w1) \<Rightarrow> (received, w1)
      | (Some err, w1) \<Rightarrow>
          (error_response 500 ''Webhook processing failed'',
           logger Err ''Error processing PayPal webhook:'' w1))"

subsection \<open>The event types the routes handle\<close>

definition stripe_event_types :: "string list" where
  "stripe_event_types =
     [''payment_intent.succeeded'', ''payment_intent.payment_failed'',
      ''invoice.payment_succeeded'', ''invoice.payment_failed'',
      ''checkout.session.completed'', ''customer.subscription.created'',
      ''customer.subscription.updated'', ''customer.subscription.deleted'',
      ''customer.subscription.trial_will_end'']"

definition paypal_event_types :: "string list" where
  "paypal_event_types =
     [''PAYMENT.CAPTURE.COMPLETED'', ''PAYMENT.CAPTURE.DENIED'',
      ''BILLING.SUBSCRIPTION.CREATED'', ''BILLING.SUBSCRIPTION.ACTIVATED'',
      ''BILLING.SUBSCRIPTION.CANCELLED'', ''BILLING.SUBSCRIPTION.EXPIRED'',
      ''BILLING.SUBSCRIPTION.PAYMENT.COMPLETED'', ''BILLING.SUBSCRIPTION.PAYMENT.FAILED'']"

subsection \<open>Sample inputs\<close>

text \<open>A world with nothing logged, nothing sent and nothing stored.\<close>

definition blank :: world where
  "blank = \<lparr>logs = [], outbound = [], payments = Map.empty, subscriptions = Map.empty,
             customers = Map.empty\<rparr>"

text \<open>A Stripe event of type \<open>t\<close> about the object \<open>obj\<close>.\<close>

definition stripe_event :: "string \<Rightarrow> jsval \<Rightarrow> jsval" where
  "stripe_event t obj =
     JObj [(''id'', JStr ''evt_1''), (''type'', JStr t), (''data'', JObj [(''object'', obj)])]"

text \<open>An object with an id and the metadata the plan handlers read.\<close>

definition plan_object :: "string \<Rightarrow> string \<Rightarrow> string \<Rightarrow> jsval" where
  "plan_object i u p =
     JObj [(''id'', JStr i),
           (''metadata'', JObj [(''userId'', JStr u), (''planId'', JStr p)])]"

text \<open>
  An environment in which the header \<^verbatim>\<open>t=1,v1=good\<close> verifies and yields the event
  \<open>ev\<close>, any other header is refused, and the network answers every call with \<open>fr\<close>.
\<close>

definition sample_env :: "jsval \<Rightarrow> fetch_result \<Rightarrow> env" where
  "sample_env ev fr =
     \<lparr>constructEvent =
        (\<lambda>payload sg. if sg = ''t=1,v1=good'' then Inr ev
                       else Inl ''No signatures found matching the expected signature for payload''),
      auth_service_url = Some ''http://auth'',
      import_fetch = True,
      fetch = (\<lambda>rq. fr)\<rparr>"

definition signed_request :: stripe_request where
  "signed_request = \<lparr>stripe_signature = Some ''t=1,v1=good'', raw_body = ''{}''\<rparr>"

text \<open>A PayPal event with id \<open>i\<close>, of type \<open>t\<close>, about the resource \<open>r\<close>.\<close>

definition paypal_event :: "string \<Rightarrow> string \<Rightarrow> jsval \<Rightarrow> jsval" where
  "paypal_event i t r = JObj [(''id'', JStr i), (''event_type'', JStr t), (''resource'', r)]"

text \<open>Appending log lines and calls to a world: what a route's run adds to it.\<close>

definition emit :: "log_entry list \<Rightarrow> http_request list \<Rightarrow> world \<Rightarrow> world" where
  "emit ls cs w = w\<lparr>logs := logs w @ ls, outbound := outbound w @ cs\<rparr>"

section \<open>The stored entities are never written\<close>

lemma entities_logger: "entities (logger l m w) = entities w"
  by (simp add: entities_def logger_def)

lemma entities_log_id_handler: "entities (log_id_handler p m obj w) = entities w"
  by (simp add: log_id_handler_def entities_logger split: sum.split)

lemma entities_outbound: "entities (w\<lparr>outbound := x\<rparr>) = entities w"
  by (simp add: entities_def)

lemma entities_update_user_plan: "entities (update_user_plan e u p w) = entities w"
  by (simp add: update_user_plan_def patch_failed_def Let_def entities_logger entities_outbound
      split: sum.split fetch_result.split option.split)

lemma entities_handleCheckoutSessionCompleted:
  "entities (handleCheckoutSessionCompleted e s w) = entities w"
  by (simp add: handleCheckoutSessionCompleted_def Let_def entities_logger
      entities_update_user_plan split: sum.split)

lemma entities_subscription_plan_handler:
  "entities (subscription_plan_handler m e s w) = entities w"
  by (simp add: subscription_plan_handler_def Let_def entities_logger
      entities_update_user_plan split: sum.split)

lemma entities_with_object:
  assumes "\<And>obj w. entities (h obj w) = entities w"
  shows "entities (snd (with_object ev h w)) = entities w"
  by (simp add: with_object_def assms split: sum.split)

lemmas simple_handler_defs =
  handlePaymentIntentSucceeded_def handlePaymentIntentFailed_def
  handleInvoicePaymentSucceeded_def handleInvoicePaymentFailed_def
  handleSubscriptionDeleted_def handleSubscriptionTrialWillEnd_def
  handlePayPalPaymentCompleted_def handlePayPalPaymentDenied_def
  handlePayPalSubscriptionCreated_def handlePayPalSubscriptionActivated_def
  handlePayPalSubscriptionCancelled_def handlePayPalSubscriptionExpired_def
  handlePayPalSubscriptionPaymentCompleted_def handlePayPalSubscriptionPaymentFailed_def

lemma entities_stripe_dispatch: "entities (snd (stripe_dispatch e ev w)) = entities w"
  by (simp add: stripe_dispatch_def Let_def simple_handler_defs
      handleSubscriptionCreated_def handleSubscriptionUpdated_def
      entities_with_object entities_log_id_handler entities_handleCheckoutSessionCompleted
      entities_subscription_plan_handler entities_logger split: sum.split)

lemma entities_verify: "entities (snd (verifyWebhookSignature e p s w)) = entities w"
  by (simp add: verifyWebhookSignature_def entities_logger split: sum.split)

lemma entities_stripe_webhook: "entities (snd (stripe_webhook e req w)) = entities w"
proof (cases "stripe_signature req")
  case None
  then show ?thesis by (simp add: stripe_webhook_def entities_logger)
next
  case (Some sg)
  show ?thesis
  proof (cases "sg = []")
    case True
    with Some show ?thesis by (simp add: stripe_webhook_def entities_logger)
  next
    case False
    obtain r w1 where v: "verifyWebhookSignature e (raw_body req) sg w = (r, w1)"
      by (cases "verifyWebhookSignature e (raw_body req) sg w")
    have w1: "entities w1 = entities w"
      using entities_verify [of e "raw_body req" sg w] v by simp
    show ?thesis
    proof (cases r)
      case (Inl err)
      with Some False v w1 show ?thesis by (simp add: stripe_webhook_def entities_logger)
    next
      case (Inr ev)
      obtain x w2 where d: "stripe_dispatch e ev w1 = (x, w2)"
        by (cases "stripe_dispatch e ev w1")
      have "entities w2 = entities w1"
        using entities_stripe_dispatch [of e ev w1] d by simp
      with Some False v w1 Inr d show ?thesis
        by (simp add: stripe_webhook_def entities_logger split: option.split)
    qed
  qed
qed

lemma entities_paypal_dispatch: "entities (snd (paypal_dispatch b w)) = entities w"
  by (simp add: paypal_dispatch_def Let_def simple_handler_defs
      entities_log_id_handler entities_logger split: sum.split)

lemma entities_paypal_webhook: "entities (snd (paypal_webhook rq w)) = entities w"
proof -
  obtain x w1 where d: "paypal_dispatch (paypal_body rq) w = (x, w1)"
    by (cases "paypal_dispatch (paypal_body rq) w")
  have "entities w1 = entities w"
    using entities_paypal_dispatch [of "paypal_body rq" w] d by simp
  with d show ?thesis
    by (simp add: paypal_webhook_def entities_logger split: option.split)
qed

section \<open>Redelivery of an event\<close>

text \<open>
  Claim C1. For every inbound webhook event, processing it twice through a webhook route
  (a provider retry, possibly under a different answer of the network and of the
  verifier) leaves every Payment, Subscription and Customer entity in the state that
  processing it once leaves. Both routes are covered: the Stripe route and the PayPal
  route.
\<close>

theorem redelivery_keeps_entities:
  "entities (snd (stripe_webhook e2 req (snd (stripe_webhook e1 req w))))
     = entities (snd (stripe_webhook e1 req w))
   \<and> entities (snd (paypal_webhook rq (snd (paypal_webhook rq w))))
     = entities (snd (paypal_webhook rq w))"
  by (simp add: entities_stripe_webhook entities_paypal_webhook)

section \<open>Requests the Stripe route refuses\<close>

text \<open>
  Claim C10. A POST to the Stripe route without a \<^verbatim>\<open>stripe-signature\<close> header is
  answered 400 with \<^verbatim>\<open>{error: 'No signature found'}\<close>. The result does not depend on
  the environment: the verifier is not consulted and no handler runs; one error line is
  logged and nothing else of the world changes.
\<close>

theorem missing_signature_rejected:
  assumes "stripe_signature req = None"
  shows "stripe_webhook e req w =
           (\<lparr>res_status = 400, res_json = JObj [(''error'', JStr ''No signature found'')]\<rparr>,
            w\<lparr>logs := logs w @ [(Err, ''No Stripe signature found in webhook'')]\<rparr>)"
  using assms by (simp add: stripe_webhook_def logger_def error_response_def)

theorem missing_signature_rejected_witness:
  "stripe_signature \<lparr>stripe_signature = None, raw_body = ''{}''\<rparr> = None
   \<and> stripe_webhook
         (sample_env (stripe_event ''payment_intent.succeeded'' (JObj [(''id'', JStr ''pi_1'')]))
            FetchRejected)
         \<lparr>stripe_signature = None, raw_body = ''{}''\<rparr> blank
       = (\<lparr>res_status = 400, res_json = JObj [(''error'', JStr ''No signature found'')]\<rparr>,
          blank\<lparr>logs := [(Err, ''No Stripe signature found in webhook'')]\<rparr>)"
  using missing_signature_rejected
    [of "\<lparr>stripe_signature = None, raw_body = ''{}''\<rparr>"
        "sample_env (stripe_event ''payment_intent.succeeded'' (JObj [(''id'', JStr ''pi_1'')]))
           FetchRejected"
        blank]
  by (simp add: blank_def)

section \<open>Event types outside the routes' tables\<close>

text \<open>Once the signature has verified, the Stripe route is its dispatch and its two answers.\<close>

lemma stripe_verified:
  assumes "stripe_signature req = Some sg" and "sg \<noteq> []"
    and "constructEvent e (raw_body req) sg = Inr ev"
  shows "stripe_webhook e req w =
           (case stripe_dispatch e ev w of
              (None, w2) \<Rightarrow> (received, w2)
            | (Some err, w2) \<Rightarrow>
                (error_response 500 ''Webhook processing failed'',
                 logger Err ''Error processing Stripe webhook:'' w2))"
  using assms by (simp add: stripe_webhook_def verifyWebhookSignature_def)

lemma resource_readable:
  assumes "getprop b ''event_type'' = Inr v"
  shows "\<exists>r. getprop b ''resource'' = Inr r"
  using assms by (cases b) simp_all

text \<open>
  Claim C3. For every event type string outside the table of types a route handles, the
  route logs the event (the line naming it as unhandled), answers the success
  acknowledgment \<^verbatim>\<open>{received: true}\<close> with status 200, and changes nothing of the
  world but the log: no entity is written and no call is issued. For the Stripe route
  the event is the one the verifier returns for the request; for the PayPal route it is
  the request body.
\<close>

theorem unrecognized_event_acknowledged:
  assumes "t \<notin> set stripe_event_types"
    and "stripe_signature req = Some sg" and "sg \<noteq> []"
    and "constructEvent e (raw_body req) sg = Inr ev"
    and "getprop ev ''type'' = Inr (JStr t)"
    and "u \<notin> set paypal_event_types"
    and "getprop (paypal_body rq) ''event_type'' = Inr (JStr u)"
  shows "stripe_webhook e req w =
           (\<lparr>res_status = 200, res_json = JObj [(''received'', JBool True)]\<rparr>,
            w\<lparr>logs := logs w @ [(Info, ''Processing Stripe webhook: '' @ t),
                                (Info, ''Unhandled Stripe event type: '' @ t)]\<rparr>)
       \<and> paypal_webhook rq w =
           (\<lparr>res_status = 200, res_json = JObj [(''received'', JBool True)]\<rparr>,
            w\<lparr>logs := logs w @ [(Info, ''Processing PayPal webhook: '' @ u),
                                (Info, ''Unhandled PayPal event type: '' @ u)]\<rparr>)"
proof
  have "stripe_dispatch e ev w =
          (None, w\<lparr>logs := logs w @ [(Info, ''Processing Stripe webhook: '' @ t),
                                     (Info, ''Unhandled Stripe event type: '' @ t)]\<rparr>)"
    using assms(1,5) by (simp add: stripe_dispatch_def stripe_event_types_def logger_def)
  then show "stripe_webhook e req w =
           (\<lparr>res_status = 200, res_json = JObj [(''received'', JBool True)]\<rparr>,
            w\<lparr>logs := logs w @ [(Info, ''Processing Stripe webhook: '' @ t),
                                (Info, ''Unhandled Stripe event type: '' @ t)]\<rparr>)"
    using stripe_verified [OF assms(2,3,4)] by (simp add: received_def)
next
  obtain r where "getprop (paypal_body rq) ''resource'' = Inr r"
    using resource_readable [OF assms(7)] ..
  then have "paypal_dispatch (paypal_body rq) w =
          (None, w\<lparr>logs := logs w @ [(Info, ''Processing PayPal webhook: '' @ u),
                                     (Info, ''Unhandled PayPal event type: '' @ u)]\<rparr>)"
    using assms(6,7) by (simp add: paypal_dispatch_def paypal_event_types_def logger_def)
  then show "paypal_webhook rq w =
           (\<lparr>res_status = 200, res_json = JObj [(''received'', JBool True)]\<rparr>,
            w\<lparr>logs := logs w @ [(Info, ''Processing PayPal webhook: '' @ u),
                                (Info, ''Unhandled PayPal event type: '' @ u)]\<rparr>)"
    by (simp add: paypal_webhook_def received_def)
qed

theorem unrecognized_event_acknowledged_witness:
  "stripe_webhook (sample_env (stripe_event ''charge.refunded'' JNull) FetchRejected)
       signed_request blank =
     (\<lparr>res_status = 200, res_json = JObj [(''received'', JBool True)]\<rparr>,
      blank\<lparr>logs := [(Info, ''Processing Stripe webhook: charge.refunded''),
                      (Info, ''Unhandled Stripe event type: charge.refunded'')]\<rparr>)
   \<and> paypal_webhook
       \<lparr>paypal_transmission_id = None, paypal_transmission_sig = None,
        paypal_body = paypal_event ''WH-7'' ''CUSTOMER.DISPUTE.CREATED'' JNull\<rparr> blank =
     (\<lparr>res_status = 200, res_json = JObj [(''received'', JBool True)]\<rparr>,
      blank\<lparr>logs := [(Info, ''Processing PayPal webhook: CUSTOMER.DISPUTE.CREATED''),
                      (Info, ''Unhandled PayPal event type: CUSTOMER.DISPUTE.CREATED'')]\<rparr>)"
  using unrecognized_event_acknowledged
    [of "''charge.refunded''" signed_request "''t=1,v1=good''"
        "sample_env (stripe_event ''charge.refunded'' JNull) FetchRejected"
        "stripe_event ''charge.refunded'' JNull"
        "''CUSTOMER.DISPUTE.CREATED''"
        "\<lparr>paypal_transmission_id = None, paypal_transmission_sig = None,
          paypal_body = paypal_event ''WH-7'' ''CUSTOMER.DISPUTE.CREATED'' JNull\<rparr>"
        blank]
  by (simp add: stripe_event_types_def paypal_event_types_def signed_request_def
      sample_env_def stripe_event_def paypal_event_def blank_def)

section \<open>The PayPal route verifies nothing\<close>

text \<open>
  Claim C2. A webhook request whose signature is invalid is rejected as a whole and
  advances nothing. The Stripe route does so (\<open>invalid_stripe_signature_rejected\<close>);
  the PayPal route does not: it never reads the transmission headers and never calls
  \<^verbatim>\<open>paypalService.verifyWebhookSignature\<close>. Whatever the transmission id and
  signature of the request are (absent or forged), a cancellation event is acknowledged
  with 200 \<^verbatim>\<open>{received: true}\<close> and its handler runs.
\<close>

theorem paypal_unverified_event_accepted:
  "paypal_webhook
     \<lparr>paypal_transmission_id = i, paypal_transmission_sig = s,
      paypal_body = paypal_event ''WH-1'' ''BILLING.SUBSCRIPTION.CANCELLED''
                      (JObj [(''id'', JStr ''I-1'')])\<rparr> w
   = (\<lparr>res_status = 200, res_json = JObj [(''received'', JBool True)]\<rparr>,
      w\<lparr>logs := logs w @ [(Info, ''Processing PayPal webhook: BILLING.SUBSCRIPTION.CANCELLED''),
                          (Info, ''PayPal subscription cancelled: I-1'')]\<rparr>)"
  by (simp add: paypal_webhook_def paypal_dispatch_def paypal_event_def received_def
      handlePayPalSubscriptionCancelled_def log_id_handler_def id_text_def logger_def)

text \<open>The sibling route: a signature the verifier refuses ends the request with 400.\<close>

lemma invalid_stripe_signature_rejected:
  assumes "stripe_signature req = Some sg" and "sg \<noteq> []"
    and "constructEvent e (raw_body req) sg = Inl msg"
  shows "stripe_webhook e req w =
           (\<lparr>res_status = 400, res_json = JObj [(''error'', JStr ''Invalid signature'')]\<rparr>,
            w\<lparr>logs := logs w @ [(Err, ''Webhook signature verification failed:''),
                                (Err, ''Webhook signature verification failed:'')]\<rparr>)"
  using assms
  by (simp add: stripe_webhook_def verifyWebhookSignature_def logger_def error_response_def)

section \<open>Acknowledgment and persistence\<close>

text \<open>
  Claim C4. The success acknowledgment is returned only after the new entity state has
  been persisted. On the code it is returned with nothing persisted: a verified
  \<^verbatim>\<open>payment_intent.succeeded\<close> event for \<^verbatim>\<open>pi_1\<close> is answered 200
  \<^verbatim>\<open>{received: true}\<close>, and the world afterwards is the world before with two log
  lines more; its payments, subscriptions and customers are the ones it had.
\<close>

theorem acknowledged_without_persistence:
  "stripe_webhook
     (sample_env (stripe_event ''payment_intent.succeeded'' (JObj [(''id'', JStr ''pi_1'')])) fr)
     signed_request w
   = (\<lparr>res_status = 200, res_json = JObj [(''received'', JBool True)]\<rparr>,
      w\<lparr>logs := logs w @ [(Info, ''Processing Stripe webhook: payment_intent.succeeded''),
                          (Info, ''Payment intent succeeded: pi_1'')]\<rparr>)"
  by (simp add: stripe_webhook_def verifyWebhookSignature_def sample_env_def
      signed_request_def stripe_event_def stripe_dispatch_def with_object_def
      event_object_def received_def handlePaymentIntentSucceeded_def log_id_handler_def
      id_text_def logger_def)

section \<open>A created subscription\<close>

text \<open>
  Claim C7. A verified \<^verbatim>\<open>customer.subscription.created\<close> event for \<^verbatim>\<open>sub_1\<close> with
  metadata \<^verbatim>\<open>{userId: 'u1', planId: 'pro'}\<close> creates a Subscription (ACTIVE, plan
  \<^verbatim>\<open>pro\<close>) and sends the plan to the identity service. On the code the call is sent
  (one PATCH to \<^verbatim>\<open>{AUTH_SERVICE_URL}/auth/users/u1/plan\<close> with the body
  \<^verbatim>\<open>{planId: 'pro'}\<close>) and the event is acknowledged, but no Subscription is created:
  the stored entities afterwards are the ones before.
\<close>

theorem subscription_created_not_stored:
  "stripe_webhook
     (sample_env (stripe_event ''customer.subscription.created''
                    (plan_object ''sub_1'' ''u1'' ''pro''))
        (Responded \<lparr>resp_status = 200, resp_statusText = ''OK'', resp_text = Some ''{}''\<rparr>))
     signed_request w
   = (\<lparr>res_status = 200, res_json = JObj [(''received'', JBool True)]\<rparr>,
      w\<lparr>logs := logs w @
                  [(Info, ''Processing Stripe webhook: customer.subscription.created''),
                   (Info, ''Stripe webhook event:''), (Info, ''userId:''),
                   (Info, ''PATCH response status:''), (Info, ''PATCH response body:''),
                   (Info, ''User u1 plan updated to pro in auth service.'')],
        outbound := outbound w @
                  [\<lparr>req_method = ''PATCH'', req_url = ''http://auth/auth/users/u1/plan'',
                    req_headers = [(''Content-Type'', ''application/json'')],
                    req_body = JObj [(''planId'', JStr ''pro'')]\<rparr>]\<rparr>)"
  by (simp add: stripe_webhook_def verifyWebhookSignature_def sample_env_def
      signed_request_def stripe_event_def stripe_dispatch_def with_object_def
      event_object_def received_def plan_object_def handleSubscriptionCreated_def
      subscription_plan_handler_def metadata_field_def update_user_plan_def
      plan_request_def resp_ok_def logger_def Let_def)

section \<open>Failures inside a handler\<close>


lemma outbound_logger: "outbound (logger l m w) = outbound w"
  by (simp add: logger_def)






section \<open>A failed call to the authentication service\<close>










section \<open>One attempt, no retry\<close>

lemma outbound_update_user_plan_failed:
  assumes "import_fetch e"
    and "fetch e (plan_request e u planId) = FetchRejected
           \<or> (\<exists>r. fetch e (plan_request e u planId) = Responded r
                  \<and> (\<not> resp_ok r \<or> resp_text r = None))"
  shows "outbound (update_user_plan e (JStr u) planId w) = outbound w @ [plan_request e u planId]
       \<and> fst (last (logs (update_user_plan e (JStr u) planId w))) = Err"
  using assms(2)
proof
  assume "fetch e (plan_request e u planId) = FetchRejected"
  with assms(1) show ?thesis
    by (simp add: update_user_plan_def patch_failed_def logger_def Let_def)
next
  assume "\<exists>r. fetch e (plan_request e u planId) = Responded r
               \<and> (\<not> resp_ok r \<or> resp_text r = None)"
  then obtain r where r: "fetch e (plan_request e u planId) = Responded r"
    and bad: "\<not> resp_ok r \<or> resp_text r = None" by blast
  from assms(1) r bad show ?thesis
    by (auto simp: update_user_plan_def patch_failed_def logger_def Let_def
        split: option.split)
qed

text \<open>
  Claim C8, as amended. The plan is sent to the identity service in one attempt and
  never retried: when that one delivery fails (the network refuses the call, the
  service answers outside 2xx, or its body cannot be read), the calls issued are the
  earlier ones and this single PATCH, the failure is logged at error level, and the
  webhook is acknowledged with status 200. No backoff, no second attempt and no record
  for manual reconciliation follow.
\<close>

theorem plan_update_attempted_once:
  assumes "stripe_signature req = Some sg" and "sg \<noteq> []"
    and "constructEvent e (raw_body req) sg = Inr ev"
    and "getprop ev ''type'' = Inr (JStr t)"
    and "t = ''checkout.session.completed'' \<or> t = ''customer.subscription.created''
           \<or> t = ''customer.subscription.updated''"
    and "event_object ev = Inr obj"
    and "id_text obj = Inr i"
    and "metadata_field obj ''userId'' = Inr (JStr u)" and "u \<noteq> []"
    and "metadata_field obj ''planId'' = Inr (JStr p)" and "p \<noteq> []"
    and "import_fetch e"
    and "fetch e (plan_request e u (JStr p)) = FetchRejected
           \<or> (\<exists>r. fetch e (plan_request e u (JStr p)) = Responded r
                  \<and> (\<not> resp_ok r \<or> resp_text r = None))"
  shows "outbound (snd (stripe_webhook e req w)) = outbound w @ [plan_request e u (JStr p)]
       \<and> fst (last (logs (snd (stripe_webhook e req w)))) = Err
       \<and> fst (stripe_webhook e req w)
           = \<lparr>res_status = 200, res_json = JObj [(''received'', JBool True)]\<rparr>"
proof -
  note once = outbound_update_user_plan_failed [OF assms(12,13)]
  from assms(5)
  have "\<exists>w2. stripe_dispatch e ev w = (None, w2)
            \<and> outbound w2 = outbound w @ [plan_request e u (JStr p)]
            \<and> fst (last (logs w2)) = Err"
  proof (elim disjE)
    assume "t = ''checkout.session.completed''"
    with assms(4,6,7,8,9,10,11) show ?thesis
      by (simp add: stripe_dispatch_def with_object_def Let_def once outbound_logger
          handleCheckoutSessionCompleted_def)
  next
    assume "t = ''customer.subscription.created''"
    with assms(4,6,8,9,10,11) show ?thesis
      by (simp add: stripe_dispatch_def with_object_def Let_def once outbound_logger
          handleSubscriptionCreated_def subscription_plan_handler_def)
  next
    assume "t = ''customer.subscription.updated''"
    with assms(4,6,8,9,10,11) show ?thesis
      by (simp add: stripe_dispatch_def with_object_def Let_def once outbound_logger
          handleSubscriptionUpdated_def subscription_plan_handler_def)
  qed
  then obtain w2 where d: "stripe_dispatch e ev w = (None, w2)"
    and o: "outbound w2 = outbound w @ [plan_request e u (JStr p)]"
    and l: "fst (last (logs w2)) = Err" by blast
  have "stripe_webhook e req w = (received, w2)"
    using stripe_verified [OF assms(1,2,3)] d by simp
  then show ?thesis using o l by (simp add: received_def)
qed

theorem plan_update_attempted_once_witness:
  "outbound (snd (stripe_webhook
       (sample_env (stripe_event ''customer.subscription.created''
                      (plan_object ''sub_1'' ''u1'' ''pro'')) FetchRejected)
       signed_request blank))
     = [\<lparr>req_method = ''PATCH'', req_url = ''http://auth/auth/users/u1/plan'',
         req_headers = [(''Content-Type'', ''application/json'')],
         req_body = JObj [(''planId'', JStr ''pro'')]\<rparr>]
   \<and> fst (last (logs (snd (stripe_webhook
       (sample_env (stripe_event ''customer.subscription.created''
                      (plan_object ''sub_1'' ''u1'' ''pro'')) FetchRejected)
       signed_request blank)))) = Err
   \<and> fst (stripe_webhook
       (sample_env (stripe_event ''customer.subscription.created''
                      (plan_object ''sub_1'' ''u1'' ''pro'')) FetchRejected)
       signed_request blank)
     = \<lparr>res_status = 200, res_json = JObj [(''received'', JBool True)]\<rparr>"
  using plan_update_attempted_once
    [of signed_request "''t=1,v1=good''"
        "sample_env (stripe_event ''customer.subscription.created''
                       (plan_object ''sub_1'' ''u1'' ''pro'')) FetchRejected"
        "stripe_event ''customer.subscription.created'' (plan_object ''sub_1'' ''u1'' ''pro'')"
        "''customer.subscription.created''" "plan_object ''sub_1'' ''u1'' ''pro''"
        "''sub_1''" "''u1''" "''pro''" blank]
  by (simp add: signed_request_def sample_env_def stripe_event_def plan_object_def
      event_object_def metadata_field_def id_text_def plan_request_def blank_def)

text \<open>
  Claim C8 as stated fails: with a network that refuses every call, a verified
  \<^verbatim>\<open>customer.subscription.created\<close> event leaves one call issued, not more: the
  failed delivery was not retried.
\<close>

theorem no_retry_counterexample:
  "\<not> 1 < length (outbound (snd (stripe_webhook
       (sample_env (stripe_event ''customer.subscription.created''
                      (plan_object ''sub_1'' ''u1'' ''pro'')) FetchRejected)
       signed_request blank)))"
  by (simp add: signed_request_def sample_env_def stripe_event_def plan_object_def
      blank_def event_object_def stripe_webhook_def verifyWebhookSignature_def
      stripe_dispatch_def with_object_def handleSubscriptionCreated_def
      subscription_plan_handler_def metadata_field_def update_user_plan_def
      patch_failed_def plan_request_def logger_def Let_def)

section \<open>What a run adds to the world does not depend on the world\<close>

lemma log_id_handler_blank:
  "log_id_handler p m obj w =
     emit (logs (log_id_handler p m obj blank)) (outbound (log_id_handler p m obj blank)) w"
  by (simp add: log_id_handler_def logger_def emit_def blank_def split: sum.split)

lemma update_user_plan_blank:
  "update_user_plan e userId planId w =
     emit (logs (update_user_plan e userId planId blank))
          (outbound (update_user_plan e userId planId blank)) w"
  by (simp add: update_user_plan_def patch_failed_def logger_def emit_def blank_def Let_def
      split: sum.split fetch_result.split option.split)

lemma handleCheckoutSessionCompleted_blank:
  "handleCheckoutSessionCompleted e obj w =
     emit (logs (handleCheckoutSessionCompleted e obj blank))
          (outbound (handleCheckoutSessionCompleted e obj blank)) w"
  by (simp add: handleCheckoutSessionCompleted_def update_user_plan_def patch_failed_def
      logger_def emit_def blank_def Let_def
      split: sum.split fetch_result.split option.split)

lemma subscription_plan_handler_blank:
  "subscription_plan_handler m e obj w =
     emit (logs (subscription_plan_handler m e obj blank))
          (outbound (subscription_plan_handler m e obj blank)) w"
  by (simp add: subscription_plan_handler_def update_user_plan_def patch_failed_def
      logger_def emit_def blank_def Let_def
      split: sum.split fetch_result.split option.split)

lemma logger_emit: "logger l m w = emit [(l, m)] [] w"
  by (simp add: logger_def emit_def)

lemma emit_emit: "emit ls cs (emit ls' cs' w) = emit (ls' @ ls) (cs' @ cs) w"
  by (simp add: emit_def)

lemma emit_nil: "emit [] [] w = w"
  by (simp add: emit_def)

lemma logs_emit: "logs (emit ls cs w) = logs w @ ls"
  by (simp add: emit_def)

lemma outbound_emit: "outbound (emit ls cs w) = outbound w @ cs"
  by (simp add: emit_def)

lemma logs_blank: "logs blank = []"
  by (simp add: blank_def)

lemma outbound_blank: "outbound blank = []"
  by (simp add: blank_def)

lemma with_object_blank:
  assumes "\<And>obj w. h obj w = emit (logs (h obj blank)) (outbound (h obj blank)) w"
  shows "with_object ev h (emit ls cs w) =
           (fst (with_object ev h blank),
            emit (ls @ logs (snd (with_object ev h blank)))
                 (cs @ outbound (snd (with_object ev h blank))) w)"
proof (cases "event_object ev")
  case (Inl err)
  then show ?thesis by (simp add: with_object_def logs_blank outbound_blank)
next
  case (Inr obj)
  have "h obj (emit ls cs w) = emit (ls @ logs (h obj blank)) (cs @ outbound (h obj blank)) w"
    using assms [of obj "emit ls cs w"] by (simp add: emit_emit)
  with Inr show ?thesis by (simp add: with_object_def)
qed

lemmas with_object_log_id =
  with_object_blank [where h = "log_id_handler p m", OF log_id_handler_blank] for p m

lemmas with_object_checkout =
  with_object_blank [where h = "handleCheckoutSessionCompleted e",
    OF handleCheckoutSessionCompleted_blank] for e

lemmas with_object_plan =
  with_object_blank [where h = "subscription_plan_handler m e",
    OF subscription_plan_handler_blank] for m e

lemma stripe_dispatch_blank:
  "stripe_dispatch e ev w =
     (fst (stripe_dispatch e ev blank),
      emit (logs (snd (stripe_dispatch e ev blank)))
           (outbound (snd (stripe_dispatch e ev blank))) w)"
proof (cases "getprop ev ''type''")
  case (Inl err)
  then show ?thesis by (simp add: stripe_dispatch_def logs_blank outbound_blank emit_nil)
next
  case (Inr t)
  show ?thesis
  proof (cases "to_str t")
    case (Inl err)
    with Inr show ?thesis by (simp add: stripe_dispatch_def logs_blank outbound_blank emit_nil)
  next
    case ts: (Inr ts)
    from Inr ts show ?thesis
      by (simp add: stripe_dispatch_def Let_def simple_handler_defs
          handleSubscriptionCreated_def handleSubscriptionUpdated_def logger_emit
          with_object_log_id with_object_checkout with_object_plan
          logs_emit outbound_emit logs_blank outbound_blank emit_emit)
  qed
qed

lemma stripe_webhook_blank:
  "stripe_webhook e req w =
     (fst (stripe_webhook e req blank),
      emit (logs (snd (stripe_webhook e req blank)))
           (outbound (snd (stripe_webhook e req blank))) w)"
proof (cases "stripe_signature req = None \<or> stripe_signature req = Some []")
  case True
  then show ?thesis
    by (auto simp: stripe_webhook_def logger_emit logs_emit outbound_emit logs_blank
        outbound_blank)
next
  case False
  then obtain sg where sg: "stripe_signature req = Some sg" "sg \<noteq> []" by auto
  show ?thesis
  proof (cases "constructEvent e (raw_body req) sg")
    case (Inl msg)
    with sg show ?thesis
      by (simp add: stripe_webhook_def verifyWebhookSignature_def logger_emit emit_emit
          logs_emit outbound_emit logs_blank outbound_blank)
  next
    case (Inr ev)
    define x where "x = fst (stripe_dispatch e ev blank)"
    define ls where "ls = logs (snd (stripe_dispatch e ev blank))"
    define cs where "cs = outbound (snd (stripe_dispatch e ev blank))"
    have d: "stripe_dispatch e ev v = (x, emit ls cs v)" for v
      unfolding x_def ls_def cs_def by (rule stripe_dispatch_blank)
    show ?thesis
      using stripe_verified [OF sg Inr, of w] stripe_verified [OF sg Inr, of blank]
      by (cases x)
         (simp_all add: d logger_emit emit_emit logs_emit outbound_emit logs_blank
            outbound_blank)
  qed
qed

lemma log_id_handler_emit:
  "log_id_handler p m obj (emit ls cs w) =
     emit (ls @ logs (log_id_handler p m obj blank))
          (cs @ outbound (log_id_handler p m obj blank)) w"
  using log_id_handler_blank [of p m obj "emit ls cs w"] by (simp add: emit_emit)

lemma paypal_dispatch_blank:
  "paypal_dispatch b w =
     (fst (paypal_dispatch b blank),
      emit (logs (snd (paypal_dispatch b blank)))
           (outbound (snd (paypal_dispatch b blank))) w)"
proof (cases "getprop b ''event_type''")
  case (Inl err)
  then show ?thesis by (simp add: paypal_dispatch_def logs_blank outbound_blank emit_nil)
next
  case (Inr t)
  then obtain r where r: "getprop b ''resource'' = Inr r"
    using resource_readable by blast
  show ?thesis
  proof (cases "to_str t")
    case (Inl err)
    with Inr r show ?thesis
      by (simp add: paypal_dispatch_def logs_blank outbound_blank emit_nil)
  next
    case ts: (Inr ts)
    from Inr r ts show ?thesis
      by (simp add: paypal_dispatch_def Let_def simple_handler_defs logger_emit
          log_id_handler_emit logs_emit outbound_emit logs_blank outbound_blank emit_emit)
  qed
qed

lemma paypal_webhook_blank:
  "paypal_webhook rq w =
     (fst (paypal_webhook rq blank),
      emit (logs (snd (paypal_webhook rq blank)))
           (outbound (snd (paypal_webhook rq blank))) w)"
proof -
  define x where "x = fst (paypal_dispatch (paypal_body rq) blank)"
  define ls where "ls = logs (snd (paypal_dispatch (paypal_body rq) blank))"
  define cs where "cs = outbound (snd (paypal_dispatch (paypal_body rq) blank))"
  have d: "paypal_dispatch (paypal_body rq) v = (x, emit ls cs v)" for v
    unfolding x_def ls_def cs_def by (rule paypal_dispatch_blank)
  show ?thesis
    by (cases x)
       (simp_all add: paypal_webhook_def d logger_emit emit_emit logs_emit outbound_emit
          logs_blank outbound_blank)
qed

lemma stripe_webhook_logs: "logs (snd (stripe_webhook e req w)) \<noteq> []"
proof (cases "stripe_signature req = None \<or> stripe_signature req = Some []")
  case True
  then show ?thesis by (auto simp: stripe_webhook_def logger_def)
next
  case False
  then obtain sg where sg: "stripe_signature req = Some sg" "sg \<noteq> []" by auto
  show ?thesis
  proof (cases "constructEvent e (raw_body req) sg")
    case (Inl msg)
    with sg show ?thesis
      by (simp add: stripe_webhook_def verifyWebhookSignature_def logger_def)
  next
    case (Inr ev)
    have "fst (stripe_dispatch e ev w) = None \<longrightarrow> logs (snd (stripe_dispatch e ev w)) \<noteq> []"
      by (simp add: stripe_dispatch_def Let_def with_object_def simple_handler_defs
          handleSubscriptionCreated_def handleSubscriptionUpdated_def log_id_handler_def
          handleCheckoutSessionCompleted_def subscription_plan_handler_def
          update_user_plan_def patch_failed_def logger_def
          split: sum.split fetch_result.split option.split)
    then show ?thesis
      using stripe_verified [OF sg Inr, of w]
      by (cases "stripe_dispatch e ev w") (auto simp: logger_def split: option.split)
  qed
qed

lemma paypal_webhook_logs: "logs (snd (paypal_webhook rq w)) \<noteq> []"
proof -
  have "fst (paypal_dispatch b w) = None \<longrightarrow> logs (snd (paypal_dispatch b w)) \<noteq> []" for b
    by (simp add: paypal_dispatch_def Let_def simple_handler_defs log_id_handler_def
        logger_def split: sum.split)
  from this [of "paypal_body rq"] show ?thesis
    by (cases "paypal_dispatch (paypal_body rq) w")
       (auto simp: paypal_webhook_def logger_def split: option.split)
qed

section \<open>Two deliveries of the same event\<close>

text \<open>
  Claim C9, as amended. The routes keep no idempotency record: of two deliveries, taken
  one after the other, neither wins a claim, neither observes the other, and neither
  skips its processing. The response to a delivery does not depend on the world it
  finds. The later delivery, whatever request carries it and whatever the environment
  answers then, is processed exactly as it is processed on its own: it
  gets the response, writes the log lines (at least one) and issues the calls to the
  identity service that it gets, writes and issues when nothing was delivered before,
  and these follow the lines and calls of the earlier delivery. On the PayPal route the
  outcome is decided by the body alone, so a second delivery of the same body, under
  any transmission headers, gets the response of the first and writes its log lines
  once more.
\<close>

theorem each_delivery_processed_on_its_own:
  "fst (paypal_webhook rq1 w) = fst (paypal_webhook rq1 blank)
   \<and> fst (stripe_webhook e1 req1 w) = fst (stripe_webhook e1 req1 blank)
   \<and> fst (paypal_webhook rq2 (snd (paypal_webhook rq1 w))) = fst (paypal_webhook rq2 blank)
   \<and> logs (snd (paypal_webhook rq2 (snd (paypal_webhook rq1 w))))
       = logs w @ logs (snd (paypal_webhook rq1 blank)) @ logs (snd (paypal_webhook rq2 blank))
   \<and> logs (snd (paypal_webhook rq2 blank)) \<noteq> []
   \<and> paypal_webhook (rq1\<lparr>paypal_transmission_id := i, paypal_transmission_sig := s\<rparr>) blank
       = paypal_webhook rq1 blank
   \<and> fst (stripe_webhook e2 req2 (snd (stripe_webhook e1 req1 w)))
       = fst (stripe_webhook e2 req2 blank)
   \<and> logs (snd (stripe_webhook e2 req2 (snd (stripe_webhook e1 req1 w))))
       = logs w @ logs (snd (stripe_webhook e1 req1 blank))
           @ logs (snd (stripe_webhook e2 req2 blank))
   \<and> logs (snd (stripe_webhook e2 req2 blank)) \<noteq> []
   \<and> outbound (snd (stripe_webhook e2 req2 (snd (stripe_webhook e1 req1 w))))
       = outbound w @ outbound (snd (stripe_webhook e1 req1 blank))
           @ outbound (snd (stripe_webhook e2 req2 blank))"
proof -
  have p: "paypal_webhook rq v =
             (fst (paypal_webhook rq blank),
              emit (logs (snd (paypal_webhook rq blank)))
                   (outbound (snd (paypal_webhook rq blank))) v)" for rq v
    by (rule paypal_webhook_blank)
  have s: "stripe_webhook e req v =
             (fst (stripe_webhook e req blank),
              emit (logs (snd (stripe_webhook e req blank)))
                   (outbound (snd (stripe_webhook e req blank))) v)" for e req v
    by (rule stripe_webhook_blank)
  have p0: "fst (paypal_webhook rq1 w) = fst (paypal_webhook rq1 blank)"
    using p [of rq1 w] by simp
  have s0: "fst (stripe_webhook e1 req1 w) = fst (stripe_webhook e1 req1 blank)"
    using s [of e1 req1 w] by simp
  have p1: "fst (paypal_webhook rq2 (snd (paypal_webhook rq1 w)))
              = fst (paypal_webhook rq2 blank)"
    using p [of rq2 "snd (paypal_webhook rq1 w)"] by simp
  have p2: "logs (snd (paypal_webhook rq2 (snd (paypal_webhook rq1 w))))
              = logs w @ logs (snd (paypal_webhook rq1 blank))
                  @ logs (snd (paypal_webhook rq2 blank))"
    using p [of rq2 "snd (paypal_webhook rq1 w)"] p [of rq1 w] by (simp add: logs_emit)
  have p4: "paypal_webhook (rq1\<lparr>paypal_transmission_id := i, paypal_transmission_sig := s\<rparr>)
              blank = paypal_webhook rq1 blank"
    by (simp add: paypal_webhook_def)
  have s1: "fst (stripe_webhook e2 req2 (snd (stripe_webhook e1 req1 w)))
              = fst (stripe_webhook e2 req2 blank)"
    using s [of e2 req2 "snd (stripe_webhook e1 req1 w)"] by simp
  have s2: "logs (snd (stripe_webhook e2 req2 (snd (stripe_webhook e1 req1 w))))
              = logs w @ logs (snd (stripe_webhook e1 req1 blank))
                  @ logs (snd (stripe_webhook e2 req2 blank))"
    using s [of e2 req2 "snd (stripe_webhook e1 req1 w)"] s [of e1 req1 w]
    by (simp add: logs_emit)
  have s4: "outbound (snd (stripe_webhook e2 req2 (snd (stripe_webhook e1 req1 w))))
              = outbound w @ outbound (snd (stripe_webhook e1 req1 blank))
                  @ outbound (snd (stripe_webhook e2 req2 blank))"
    using s [of e2 req2 "snd (stripe_webhook e1 req1 w)"] s [of e1 req1 w]
    by (simp add: outbound_emit)
  show ?thesis
    using p0 s0 p1 p2 p4 s1 s2 s4 paypal_webhook_logs [of rq2 blank]
      stripe_webhook_logs [of e2 req2 blank]
    by blast
qed

text \<open>
  Claim C9 as stated fails: after two deliveries of the PayPal event \<^verbatim>\<open>evt_9\<close>
  (\<^verbatim>\<open>PAYMENT.CAPTURE.COMPLETED\<close> for the capture \<^verbatim>\<open>cap_9\<close>) the handler has not run
  exactly once: its log line stands twice, the second delivery having skipped nothing.
\<close>

theorem duplicate_delivery_counterexample:
  "\<not> count_list
        (logs (snd (paypal_webhook
           \<lparr>paypal_transmission_id = None, paypal_transmission_sig = None,
            paypal_body = paypal_event ''evt_9'' ''PAYMENT.CAPTURE.COMPLETED''
                            (JObj [(''id'', JStr ''cap_9'')])\<rparr>
           (snd (paypal_webhook
              \<lparr>paypal_transmission_id = None, paypal_transmission_sig = None,
               paypal_body = paypal_event ''evt_9'' ''PAYMENT.CAPTURE.COMPLETED''
                               (JObj [(''id'', JStr ''cap_9'')])\<rparr>
              blank)))))
        (Info, ''PayPal payment completed: cap_9'') = 1"
  by (simp add: paypal_webhook_def paypal_dispatch_def paypal_event_def blank_def
      handlePayPalPaymentCompleted_def log_id_handler_def id_text_def logger_def)

end
